theory Spec2Isabelle
  imports Main
begin

section \<open>Data model\<close>

text \<open>
  The values that \<open>BindingValidator.Validate\<close> (package \<open>permissions\<close>) handles. The Go
  types come from the Kubernetes libraries and from the \<open>resources\<close> package; only the
  fields that \<open>Validate\<close> reads or writes are kept.
\<close>

record GroupKind =
  gk_Group :: string
  gk_Kind :: string

record GroupVersion =
  gv_Group :: string
  gv_Version :: string

record GroupVersionKind =
  gvk_Group :: string
  gvk_Version :: string
  gvk_Kind :: string

record GroupVersionResource =
  gvr_Group :: string
  gvr_Version :: string
  gvr_Resource :: string

text \<open>\<open>meta.RESTMapping\<close>: \<open>Validate\<close> reads its field \<open>Resource\<close> only.\<close>

record meta_RESTMapping =
  rm_Resource :: GroupVersionResource

text \<open>
  Modelled from the spec: the type \<open>ctlres.Resource\<close> is declared in another
  package. The binding resource carries group/version/kind, namespace, name and a reference
  to the role it binds.
\<close>

record Resource =
  res_Group :: string
  res_Version :: string
  res_Kind :: string
  res_Namespace :: string
  res_Name :: string
  res_RoleRefKind :: string
  res_RoleRefName :: string

text \<open>\<open>authv1.ResourceAttributes\<close>: one fully-specified permission check.\<close>

record ResourceAttributes =
  ra_Group :: string
  ra_Version :: string
  ra_Resource :: string
  ra_Namespace :: string
  ra_Name :: string
  ra_Verb :: string

text \<open>
  Modelled from the spec: \<open>rbacv1.PolicyRule\<close>, a compound grant
  \<open>{apiGroups, resources, resourceNames (optional), verbs}\<close>. A Go slice is a list; the
  nil slice is the empty list.
\<close>

record PolicyRule =
  Verbs :: "string list"
  APIGroups :: "string list"
  Resources :: "string list"
  ResourceNames :: "string list"

text \<open>
  Go \<open>error\<close> values. \<open>Errorf fmt args\<close> is \<open>fmt.Errorf(fmt, args...)\<close> with string
  arguments, \<open>ErrorfW fmt err\<close> is \<open>fmt.Errorf\<close> with one \<open>%w\<close> argument (it wraps
  \<open>err\<close>), \<open>Join errs\<close> is \<open>errors.Join(errs...)\<close> on a non-empty list of non-nil
  errors. The first four constructors are the errors the collaborators hand back; their
  kinds are modelled from the spec's error taxonomy, the collaborators being functions of
  other packages. A nil \<open>error\<close> is \<open>None\<close> of \<open>error option\<close>.
\<close>

datatype error =
    AddressingError string
  | TransportError string
  | NotFoundError string
  | PermissionDeniedError string
  | Errorf string "string list"
  | ErrorfW string error
  | Join "error list"

text \<open>
  What a call of \<open>Validate\<close> does: it returns an \<open>error\<close> (possibly nil), or it
  panics on an index out of range.
\<close>

datatype result = Returns "error option" | Panics

text \<open>
  The calls made to the three collaborators, each with the answer it got, in the order
  they were made.
\<close>

datatype call =
    RESTMappingCall GroupKind string "error + meta_RESTMapping"
  | ValidatePermissionsCall ResourceAttributes "error option"
  | RulesForBindingCall Resource "error + PolicyRule list"

text \<open>
  The state threaded through a call: the world \<open>'w\<close> behind the remote services (their
  answers may change from one call to the next) and the log of the calls made so far.
\<close>

type_synonym 'w state = "'w \<times> call list"

text \<open>
  \<open>BindingValidator\<close>: the three clients. Each client is given by what a call through it
  answers in a world, and the world it leaves:
  \<^item> \<open>ssarClient\<close>: what \<open>ValidatePermissions(ctx, bv.ssarClient, attrs)\<close> returns (nil
    when the permission is held, an error when it is denied or cannot be determined);
  \<^item> \<open>rbacClient\<close>: what \<open>RulesForBinding(ctx, bv.rbacClient, res)\<close> returns;
  \<^item> \<open>mapper\<close>: what \<open>bv.mapper.RESTMapping(groupKind, version)\<close> returns.
\<close>

record 'w BindingValidator =
  ssarClient :: "ResourceAttributes \<Rightarrow> 'w \<Rightarrow> error option \<times> 'w"
  rbacClient :: "Resource \<Rightarrow> 'w \<Rightarrow> (error + PolicyRule list) \<times> 'w"
  mapper :: "GroupKind \<Rightarrow> string \<Rightarrow> 'w \<Rightarrow> (error + meta_RESTMapping) \<times> 'w"

section \<open>Accessors of the resource\<close>

definition Resource_GroupKind :: "Resource \<Rightarrow> GroupKind" where
  "Resource_GroupKind res = \<lparr>gk_Group = res_Group res, gk_Kind = res_Kind res\<rparr>"

definition Resource_GroupVersion :: "Resource \<Rightarrow> GroupVersion" where
  "Resource_GroupVersion res = \<lparr>gv_Group = res_Group res, gv_Version = res_Version res\<rparr>"

definition WithKind :: "GroupVersion \<Rightarrow> string \<Rightarrow> GroupVersionKind" where
  "WithKind gv kind = \<lparr>gvk_Group = gv_Group gv, gvk_Version = gv_Version gv, gvk_Kind = kind\<rparr>"

text \<open>\<open>GroupVersionKind.String()\<close>: group, \<open>/\<close>, version, \<open>, Kind=\<close>, kind.\<close>

definition GroupVersionKind_String :: "GroupVersionKind \<Rightarrow> string" where
  "GroupVersionKind_String gvk = gvk_Group gvk @ ''/'' @ gvk_Version gvk @ '', Kind='' @ gvk_Kind gvk"

section \<open>Calls to the collaborators\<close>

definition RESTMapping ::
  "'w BindingValidator \<Rightarrow> GroupKind \<Rightarrow> string \<Rightarrow> 'w state \<Rightarrow> (error + meta_RESTMapping) \<times> 'w state" where
  "RESTMapping bv gk version s =
     (case mapper bv gk version (fst s) of
        (r, w') \<Rightarrow> (r, (w', snd s @ [RESTMappingCall gk version r])))"

definition ValidatePermissions ::
  "'w BindingValidator \<Rightarrow> ResourceAttributes \<Rightarrow> 'w state \<Rightarrow> error option \<times> 'w state" where
  "ValidatePermissions bv attrs s =
     (case ssarClient bv attrs (fst s) of
        (r, w') \<Rightarrow> (r, (w', snd s @ [ValidatePermissionsCall attrs r])))"

definition RulesForBinding ::
  "'w BindingValidator \<Rightarrow> Resource \<Rightarrow> 'w state \<Rightarrow> (error + PolicyRule list) \<times> 'w state" where
  "RulesForBinding bv res s =
     (case rbacClient bv res (fst s) of
        (r, w') \<Rightarrow> (r, (w', snd s @ [RulesForBindingCall res r])))"

section \<open>The validator\<close>

text \<open>
  The inner loop of \<open>Validate\<close>, over the subrules of one rule. \<open>errorSet\<close> is the slice
  the loop appends to. The struct literal reads \<open>subrule.APIGroups[0]\<close>,
  \<open>subrule.Resources[0]\<close> and \<open>subrule.Verbs[0]\<close> before \<open>ValidatePermissions\<close> is
  called: an empty slice there is a panic (\<open>None\<close>), and nothing is checked.
\<close>

fun subrules_loop ::
  "'w BindingValidator \<Rightarrow> Resource \<Rightarrow> PolicyRule list \<Rightarrow> error list \<Rightarrow> 'w state
     \<Rightarrow> error list option \<times> 'w state" where
  "subrules_loop bv res [] errorSet s = (Some errorSet, s)"
| "subrules_loop bv res (subrule # subrules) errorSet s =
     (let resourceName =
        (if length (ResourceNames subrule) > 0 then ResourceNames subrule ! 0 else '''')
      in
        if length (APIGroups subrule) = 0 \<or> length (Resources subrule) = 0
           \<or> length (Verbs subrule) = 0
        then (None, s)
        else
          (case ValidatePermissions bv
                  \<lparr>ra_Group = APIGroups subrule ! 0,
                   ra_Version = '''',
                   ra_Resource = Resources subrule ! 0,
                   ra_Namespace = res_Namespace res,
                   ra_Name = resourceName,
                   ra_Verb = Verbs subrule ! 0\<rparr> s of
             (Some err, s') \<Rightarrow> subrules_loop bv res subrules (errorSet @ [err]) s'
           | (None, s') \<Rightarrow> subrules_loop bv res subrules errorSet s'))"

text \<open>
  The outer loop, over the rules of the referenced role. \<open>breakdown\<close> is
  \<open>validation.BreakdownRule\<close>, a function of the Kubernetes library
  \<open>component-helpers\<close>; the validator is verified for any such function.
\<close>

fun rules_loop ::
  "(PolicyRule \<Rightarrow> PolicyRule list) \<Rightarrow> 'w BindingValidator \<Rightarrow> Resource \<Rightarrow> PolicyRule list
     \<Rightarrow> error list \<Rightarrow> 'w state \<Rightarrow> error list option \<times> 'w state" where
  "rules_loop breakdown bv res [] errorSet s = (Some errorSet, s)"
| "rules_loop breakdown bv res (rule # rules) errorSet s =
     (case subrules_loop bv res (breakdown rule) errorSet s of
        (None, s') \<Rightarrow> (None, s')
      | (Some errorSet', s') \<Rightarrow> rules_loop breakdown bv res rules errorSet' s')"

definition Validate ::
  "(PolicyRule \<Rightarrow> PolicyRule list) \<Rightarrow> 'w BindingValidator \<Rightarrow> Resource \<Rightarrow> string
     \<Rightarrow> 'w state \<Rightarrow> result \<times> 'w state" where
  "Validate breakdown bv res verb s0 =
     (case RESTMapping bv (Resource_GroupKind res) (gv_Version (Resource_GroupVersion res)) s0 of
        (Inl err, s1) \<Rightarrow> (Returns (Some err), s1)
      | (Inr mapping, s1) \<Rightarrow>
          if verb = ''create'' \<or> verb = ''update'' then
            (case ValidatePermissions bv
                    \<lparr>ra_Group = gvr_Group (rm_Resource mapping),
                     ra_Version = gvr_Version (rm_Resource mapping),
                     ra_Resource = gvr_Resource (rm_Resource mapping),
                     ra_Namespace = res_Namespace res,
                     ra_Name = res_Name res,
                     ra_Verb = ''bind''\<rparr> s1 of
               (None, s2) \<Rightarrow> (Returns None, s2)
             | (Some _, s2) \<Rightarrow>
                 (case ValidatePermissions bv
                         \<lparr>ra_Group = gvr_Group (rm_Resource mapping),
                          ra_Version = gvr_Version (rm_Resource mapping),
                          ra_Resource = gvr_Resource (rm_Resource mapping),
                          ra_Namespace = res_Namespace res,
                          ra_Name = res_Name res,
                          ra_Verb = verb\<rparr> s2 of
                    (Some err, s3) \<Rightarrow> (Returns (Some err), s3)
                  | (None, s3) \<Rightarrow>
                      (case RulesForBinding bv res s3 of
                         (Inl err, s4) \<Rightarrow>
                           (Returns (Some (ErrorfW ''fetching rules for binding: %w'' err)), s4)
                       | (Inr rules, s4) \<Rightarrow>
                           (case rules_loop breakdown bv res rules [] s4 of
                              (None, s5) \<Rightarrow> (Panics, s5)
                            | (Some errorSet, s5) \<Rightarrow>
                                if length errorSet > 0 then
                                  (Returns (Some (Join
                                     ([Errorf ''potential privilege escalation, not permitted to %q %s''
                                         [verb,
                                          GroupVersionKind_String
                                            (WithKind (Resource_GroupVersion res) (res_Kind res))]]
                                      @ errorSet))), s5)
                                else (Returns None, s5)))))
          else
            (case ValidatePermissions bv
                    \<lparr>ra_Group = gvr_Group (rm_Resource mapping),
                     ra_Version = gvr_Version (rm_Resource mapping),
                     ra_Resource = gvr_Resource (rm_Resource mapping),
                     ra_Namespace = res_Namespace res,
                     ra_Name = res_Name res,
                     ra_Verb = verb\<rparr> s1 of
               (r, s2) \<Rightarrow> (Returns r, s2)))"

section \<open>Vocabulary of the properties\<close>

text \<open>
  The permission asked about the binding resource itself under a verb, once the mapping
  has resolved its addressing.
\<close>

definition binding_attrs :: "meta_RESTMapping \<Rightarrow> Resource \<Rightarrow> string \<Rightarrow> ResourceAttributes" where
  "binding_attrs mapping res verb =
     \<lparr>ra_Group = gvr_Group (rm_Resource mapping),
      ra_Version = gvr_Version (rm_Resource mapping),
      ra_Resource = gvr_Resource (rm_Resource mapping),
      ra_Namespace = res_Namespace res,
      ra_Name = res_Name res,
      ra_Verb = verb\<rparr>"

text \<open>The call that resolves the addressing of a resource, with its answer.\<close>

definition mapping_call :: "Resource \<Rightarrow> (error + meta_RESTMapping) \<Rightarrow> call" where
  "mapping_call res r = RESTMappingCall (Resource_GroupKind res) (res_Version res) r"

text \<open>The permission checks of the binding resource under \<open>bind\<close> and under the verb.\<close>

definition bind_call :: "meta_RESTMapping \<Rightarrow> Resource \<Rightarrow> error option \<Rightarrow> call" where
  "bind_call mapping res r = ValidatePermissionsCall (binding_attrs mapping res ''bind'') r"

definition verb_call :: "meta_RESTMapping \<Rightarrow> Resource \<Rightarrow> string \<Rightarrow> error option \<Rightarrow> call" where
  "verb_call mapping res verb r = ValidatePermissionsCall (binding_attrs mapping res verb) r"

text \<open>
  A subrule that the loop can read: it has a first API group, a first resource and a
  first verb. An atomic rule (exactly one of each) is such a subrule.
\<close>

definition indexable :: "PolicyRule \<Rightarrow> bool" where
  "indexable sr \<longleftrightarrow> APIGroups sr \<noteq> [] \<and> Resources sr \<noteq> [] \<and> Verbs sr \<noteq> []"

text \<open>The name a subrule is checked under: its first resource name, or the empty name.\<close>

definition first_name :: "PolicyRule \<Rightarrow> string" where
  "first_name sr = (case ResourceNames sr of [] \<Rightarrow> '''' | n # _ \<Rightarrow> n)"

text \<open>The grant an atomic rule stands for, in the namespace of the binding.\<close>

definition atomic_attrs :: "Resource \<Rightarrow> PolicyRule \<Rightarrow> ResourceAttributes" where
  "atomic_attrs res sr =
     \<lparr>ra_Group = hd (APIGroups sr),
      ra_Version = '''',
      ra_Resource = hd (Resources sr),
      ra_Namespace = res_Namespace res,
      ra_Name = first_name sr,
      ra_Verb = hd (Verbs sr)\<rparr>"

text \<open>All the subrules of a rule set, rule by rule.\<close>

definition decompose_all :: "(PolicyRule \<Rightarrow> PolicyRule list) \<Rightarrow> PolicyRule list \<Rightarrow> PolicyRule list" where
  "decompose_all breakdown rules = concat (map breakdown rules)"

text \<open>
  The specification of the escalation check, in the spec's words: for every atomic rule
  a permission check is issued, one round-trip each, whatever the earlier answers were;
  \<open>answers\<close> gives the answer of each check and the world the last one leaves.
\<close>

fun answers ::
  "'w BindingValidator \<Rightarrow> ResourceAttributes list \<Rightarrow> 'w \<Rightarrow> error option list \<times> 'w" where
  "answers bv [] w = ([], w)"
| "answers bv (a # as) w =
     (case ssarClient bv a w of
        (r, w') \<Rightarrow> (case answers bv as w' of (rs, w'') \<Rightarrow> (r # rs, w'')))"

text \<open>The aggregated failure set: the error of every check that was denied or failed.\<close>

definition failures :: "error option list \<Rightarrow> error list" where
  "failures rs = List.map_filter (\<lambda>r. r) rs"

text \<open>The log entries of a run of checks.\<close>

definition check_calls :: "ResourceAttributes list \<Rightarrow> error option list \<Rightarrow> call list" where
  "check_calls as rs = map (\<lambda>(a, r). ValidatePermissionsCall a r) (zip as rs)"

text \<open>The error of the escalation: the base error joined with the failures.\<close>

definition PrivilegeEscalationError :: "string \<Rightarrow> Resource \<Rightarrow> error list \<Rightarrow> error" where
  "PrivilegeEscalationError verb res errs =
     Join (Errorf ''potential privilege escalation, not permitted to %q %s''
             [verb, res_Group res @ ''/'' @ res_Version res @ '', Kind='' @ res_Kind res]
           # errs)"

text \<open>The names under which the permission checks of a log were made.\<close>

fun checked_names :: "call list \<Rightarrow> string list" where
  "checked_names [] = []"
| "checked_names (ValidatePermissionsCall a r # cs) = ra_Name a # checked_names cs"
| "checked_names (c # cs) = checked_names cs"

section \<open>The decomposition of a rule\<close>

text \<open>
  Modelled from the spec: \<open>validation.BreakdownRule\<close> is a function of the library
  \<open>component-helpers\<close>, whose source is not part of the repository. The spec's decomposer
  produces the full cross-product of API groups, resources and verbs; each subrule
  names one group, one resource and one verb, and when the rule has resource names it
  carries a single representative name, the first one.
\<close>

definition BreakdownRule :: "PolicyRule \<Rightarrow> PolicyRule list" where
  "BreakdownRule rule =
     concat (map (\<lambda>group.
       concat (map (\<lambda>resource.
         map (\<lambda>verb.
           \<lparr>Verbs = [verb], APIGroups = [group], Resources = [resource],
            ResourceNames = take 1 (ResourceNames rule)\<rparr>)
           (Verbs rule))
         (Resources rule)))
       (APIGroups rule))"

section \<open>A test double\<close>

text \<open>
  Fakes of the three collaborators, with deterministic answers. The world is the number
  of requests answered so far. The fake authorization service holds a list of
  (verb, resource) grants, and fails to answer for the verbs in \<open>down\<close>.
\<close>

definition fake_mapper :: "GroupKind \<Rightarrow> string \<Rightarrow> nat \<Rightarrow> (error + meta_RESTMapping) \<times> nat" where
  "fake_mapper gk version w =
     (if gk_Kind gk = ''RoleBinding''
      then Inr \<lparr>rm_Resource = \<lparr>gvr_Group = gk_Group gk, gvr_Version = version,
                               gvr_Resource = ''rolebindings''\<rparr>\<rparr>
      else Inl (AddressingError (gk_Kind gk)), Suc w)"

definition fake_ssar ::
  "(string \<times> string) list \<Rightarrow> string list \<Rightarrow> ResourceAttributes \<Rightarrow> nat \<Rightarrow> error option \<times> nat" where
  "fake_ssar held down attrs w =
     (if ra_Verb attrs \<in> set down then Some (TransportError ''timeout'')
      else if (ra_Verb attrs, ra_Resource attrs) \<in> set held then None
      else Some (PermissionDeniedError (ra_Verb attrs @ '' '' @ ra_Resource attrs)), Suc w)"

definition fake_rbac ::
  "(error + PolicyRule list) \<Rightarrow> Resource \<Rightarrow> nat \<Rightarrow> (error + PolicyRule list) \<times> nat" where
  "fake_rbac answer res w = (answer, Suc w)"

definition fake_bv ::
  "(string \<times> string) list \<Rightarrow> string list \<Rightarrow> (error + PolicyRule list) \<Rightarrow> nat BindingValidator" where
  "fake_bv held down answer =
     \<lparr>ssarClient = fake_ssar held down, rbacClient = fake_rbac answer, mapper = fake_mapper\<rparr>"

definition pod_binding :: Resource where
  "pod_binding =
     \<lparr>res_Group = ''rbac'', res_Version = ''v1'', res_Kind = ''RoleBinding'',
      res_Namespace = ''dev'', res_Name = ''rb'',
      res_RoleRefKind = ''Role'', res_RoleRefName = ''reader''\<rparr>"

definition pod_mapping :: meta_RESTMapping where
  "pod_mapping =
     \<lparr>rm_Resource = \<lparr>gvr_Group = ''rbac'', gvr_Version = ''v1'', gvr_Resource = ''rolebindings''\<rparr>\<rparr>"

definition pod_reader :: "PolicyRule list" where
  "pod_reader =
     [\<lparr>Verbs = [''get'', ''list''], APIGroups = [''''], Resources = [''pods'', ''services''],
       ResourceNames = []\<rparr>]"

definition stray_gadget :: Resource where
  "stray_gadget =
     \<lparr>res_Group = ''example'', res_Version = ''v1'', res_Kind = ''Gadget'',
      res_Namespace = ''dev'', res_Name = ''g'',
      res_RoleRefKind = '''', res_RoleRefName = ''''\<rparr>"

definition named_reader :: "PolicyRule list" where
  "named_reader =
     [\<lparr>Verbs = [''get''], APIGroups = [''''], Resources = [''configmaps''],
       ResourceNames = [''a'', ''b'']\<rparr>,
      \<lparr>Verbs = [''list''], APIGroups = [''''], Resources = [''pods''],
       ResourceNames = []\<rparr>]"

text \<open>The principals of the scenarios.\<close>

definition binder_bv :: "nat BindingValidator" where
  "binder_bv = fake_bv [(''bind'', ''rolebindings'')] [] (Inr pod_reader)"

definition outsider_bv :: "nat BindingValidator" where
  "outsider_bv = fake_bv [] [] (Inr pod_reader)"

definition get_only_bv :: "nat BindingValidator" where
  "get_only_bv = fake_bv [(''create'', ''rolebindings''), (''get'', ''pods'')] [] (Inr pod_reader)"

definition reader_bv :: "nat BindingValidator" where
  "reader_bv =
     fake_bv [(''update'', ''rolebindings''), (''get'', ''pods''), (''list'', ''pods''),
              (''get'', ''services''), (''list'', ''services'')] [] (Inr pod_reader)"

definition orphan_bv :: "nat BindingValidator" where
  "orphan_bv = fake_bv [(''create'', ''rolebindings'')] [] (Inl (NotFoundError ''reader''))"

definition deleter_bv :: "nat BindingValidator" where
  "deleter_bv = fake_bv [] [] (Inr pod_reader)"

definition named_bv :: "nat BindingValidator" where
  "named_bv = fake_bv [(''create'', ''rolebindings''), (''list'', ''pods'')] [] (Inr named_reader)"

definition flaky_bv :: "nat BindingValidator" where
  "flaky_bv = fake_bv [(''create'', ''rolebindings'')] [''bind''] (Inr [])"

definition retry_bv :: "nat BindingValidator" where
  "retry_bv =
     fake_bv [(''create'', ''rolebindings''), (''get'', ''pods'')] [''bind''] (Inr pod_reader)"

text \<open>
  A rule that grants \<open>get\<close> on a non-resource URL (such as \<open>/healthz\<close>): in the four
  fields of a rule it has a verb, and neither an API group nor a resource.
\<close>

definition url_rule :: PolicyRule where
  "url_rule = \<lparr>Verbs = [''get''], APIGroups = [], Resources = [], ResourceNames = []\<rparr>"

text \<open>
  A decomposition that also covers the rules on non-resource URLs, as the library's does:
  such a rule names no API group, and its subrules, one for each verb, name no group and
  no resource either. Every other rule is decomposed by \<open>BreakdownRule\<close>.
\<close>

definition breakdown_urls :: "PolicyRule \<Rightarrow> PolicyRule list" where
  "breakdown_urls rule =
     (if APIGroups rule = [] then
        map (\<lambda>verb. \<lparr>Verbs = [verb], APIGroups = [], Resources = [], ResourceNames = []\<rparr>)
          (Verbs rule)
      else BreakdownRule rule)"

definition mixed_reader :: "PolicyRule list" where
  "mixed_reader =
     [\<lparr>Verbs = [''list''], APIGroups = [''''], Resources = [''pods''], ResourceNames = []\<rparr>,
      url_rule,
      \<lparr>Verbs = [''get''], APIGroups = [''''], Resources = [''services''], ResourceNames = []\<rparr>]"

definition health_reader :: "PolicyRule list" where
  "health_reader =
     [\<lparr>Verbs = [''get''], APIGroups = [''''], Resources = [''pods''], ResourceNames = []\<rparr>,
      url_rule]"

definition mixed_bv :: "nat BindingValidator" where
  "mixed_bv = fake_bv [(''create'', ''rolebindings'')] [] (Inr mixed_reader)"

definition health_bv :: "nat BindingValidator" where
  "health_bv = fake_bv [(''create'', ''rolebindings''), (''get'', ''pods'')] [] (Inr health_reader)"

text \<open>The log entry of a check in the namespace \<open>dev\<close>, in the core API group.\<close>

definition core_check :: "string \<Rightarrow> string \<Rightarrow> string \<Rightarrow> error option \<Rightarrow> call" where
  "core_check resource name verb r =
     ValidatePermissionsCall
       \<lparr>ra_Group = '''', ra_Version = '''', ra_Resource = resource, ra_Namespace = ''dev'',
        ra_Name = name, ra_Verb = verb\<rparr> r"

section \<open>Properties of the loops\<close>

lemma subrules_loop_Cons:
  assumes "indexable sr"
  shows "subrules_loop bv res (sr # srs) acc s =
     (case ValidatePermissions bv (atomic_attrs res sr) s of
        (Some err, s') \<Rightarrow> subrules_loop bv res srs (acc @ [err]) s'
      | (None, s') \<Rightarrow> subrules_loop bv res srs acc s')"
proof -
  have name: "(if length (ResourceNames sr) > 0 then ResourceNames sr ! 0 else '''') = first_name sr"
    by (cases "ResourceNames sr") (simp_all add: first_name_def)
  from assms have "APIGroups sr ! 0 = hd (APIGroups sr)" "Resources sr ! 0 = hd (Resources sr)"
    "Verbs sr ! 0 = hd (Verbs sr)"
    by (simp_all add: indexable_def hd_conv_nth)
  with assms name show ?thesis
    by (simp add: indexable_def atomic_attrs_def)
qed

text \<open>A subrule without a first group, resource or verb stops the loop with a panic.\<close>

lemma subrules_loop_panics:
  assumes "\<not> indexable sr"
  shows "subrules_loop bv res (sr # srs) acc s = (None, s)"
  using assms by (auto simp: indexable_def)

lemma subrules_loop_answers:
  assumes "\<forall>sr\<in>set srs. indexable sr"
  shows "subrules_loop bv res srs acc (w, cs) =
     (case answers bv (map (atomic_attrs res) srs) w of
        (rs, w') \<Rightarrow> (Some (acc @ failures rs),
                     (w', cs @ check_calls (map (atomic_attrs res) srs) rs)))"
  using assms
proof (induction srs arbitrary: acc w cs)
  case Nil
  show ?case by (simp add: failures_def check_calls_def)
next
  case (Cons sr srs)
  obtain r w1 where r: "ssarClient bv (atomic_attrs res sr) w = (r, w1)"
    by (cases "ssarClient bv (atomic_attrs res sr) w")
  obtain rs w2 where rs: "answers bv (map (atomic_attrs res) srs) w1 = (rs, w2)"
    by (cases "answers bv (map (atomic_attrs res) srs) w1")
  from Cons.prems have sr: "indexable sr" and srs: "\<forall>sr\<in>set srs. indexable sr"
    by simp_all
  note ih = Cons.IH [OF srs]
  show ?case
  proof (cases r)
    case None
    with r rs show ?thesis
      by (simp add: subrules_loop_Cons [OF sr] ValidatePermissions_def ih
            failures_def check_calls_def del: subrules_loop.simps)
  next
    case (Some e)
    with r rs show ?thesis
      by (simp add: subrules_loop_Cons [OF sr] ValidatePermissions_def ih
            failures_def check_calls_def del: subrules_loop.simps)
  qed
qed

lemma subrules_loop_append:
  "subrules_loop bv res (xs @ ys) acc s =
     (case subrules_loop bv res xs acc s of
        (None, s') \<Rightarrow> (None, s')
      | (Some acc', s') \<Rightarrow> subrules_loop bv res ys acc' s')"
  by (induction xs arbitrary: acc s)
     (auto simp: Let_def split: prod.splits option.splits)

lemma rules_loop_decompose:
  "rules_loop breakdown bv res rules acc s =
     subrules_loop bv res (decompose_all breakdown rules) acc s"
  by (induction rules arbitrary: acc s)
     (auto simp: decompose_all_def subrules_loop_append split: prod.splits option.splits)


lemma answers_length: "answers bv as w = (rs, w') \<Longrightarrow> length rs = length as"
  by (induction as arbitrary: w rs) (auto split: prod.splits)

lemma list_all_indexable_BreakdownRule: "list_all indexable (BreakdownRule rule)"
  by (simp add: BreakdownRule_def list_all_iff indexable_def)

lemma Validate_head:
  assumes "mapper bv (Resource_GroupKind res) (res_Version res) w = (Inr mapping, w1)"
  shows "Validate breakdown bv res verb (w, cs) =
     (if verb = ''create'' \<or> verb = ''update'' then
        (case ValidatePermissions bv (binding_attrs mapping res ''bind'')
                (w1, cs @ [mapping_call res (Inr mapping)]) of
           (None, s2) \<Rightarrow> (Returns None, s2)
         | (Some _, s2) \<Rightarrow>
             (case ValidatePermissions bv (binding_attrs mapping res verb) s2 of
                (Some err, s3) \<Rightarrow> (Returns (Some err), s3)
              | (None, s3) \<Rightarrow>
                  (case RulesForBinding bv res s3 of
                     (Inl err, s4) \<Rightarrow>
                       (Returns (Some (ErrorfW ''fetching rules for binding: %w'' err)), s4)
                   | (Inr rules, s4) \<Rightarrow>
                       (case subrules_loop bv res (decompose_all breakdown rules) [] s4 of
                          (None, s5) \<Rightarrow> (Panics, s5)
                        | (Some errorSet, s5) \<Rightarrow>
                            (Returns (if errorSet = [] then None
                                      else Some (PrivilegeEscalationError verb res errorSet)), s5)))))
      else
        (case ValidatePermissions bv (binding_attrs mapping res verb)
                (w1, cs @ [mapping_call res (Inr mapping)]) of
           (r, s2) \<Rightarrow> (Returns r, s2)))"
  using assms
  by (simp add: Validate_def RESTMapping_def Resource_GroupVersion_def mapping_call_def
        binding_attrs_def rules_loop_decompose PrivilegeEscalationError_def
        GroupVersionKind_String_def WithKind_def
      split: prod.splits option.splits sum.splits)

lemma Validate_escalation_path:
  assumes verb: "verb = ''create'' \<or> verb = ''update''"
    and m: "mapper bv (Resource_GroupKind res) (res_Version res) w = (Inr mapping, w1)"
    and b: "ssarClient bv (binding_attrs mapping res ''bind'') w1 = (Some e1, w2)"
    and d: "ssarClient bv (binding_attrs mapping res verb) w2 = (None, w3)"
    and r: "rbacClient bv res w3 = (Inr rules, w4)"
    and ix: "list_all indexable (decompose_all breakdown rules)"
    and a: "answers bv (map (atomic_attrs res) (decompose_all breakdown rules)) w4 = (rs, w5)"
  shows "Validate breakdown bv res verb (w, cs) =
     (Returns (if failures rs = [] then None
               else Some (PrivilegeEscalationError verb res (failures rs))),
      (w5, cs @ [mapping_call res (Inr mapping), bind_call mapping res (Some e1),
                 verb_call mapping res verb None, RulesForBindingCall res (Inr rules)]
             @ check_calls (map (atomic_attrs res) (decompose_all breakdown rules)) rs))"
proof -
  from ix have ix': "\<forall>sr\<in>set (decompose_all breakdown rules). indexable sr"
    by (simp add: list_all_iff)
  show ?thesis
    using verb b d r a
    by (simp add: Validate_head [OF m] ValidatePermissions_def RulesForBinding_def
          subrules_loop_answers [OF ix'] bind_call_def verb_call_def)
qed

lemma failures_all_allowed: "list_all (\<lambda>r. r = None) rs \<Longrightarrow> failures rs = []"
  by (induction rs) (simp_all add: failures_def)

lemma checked_names_check_calls:
  "length rs = length srs \<Longrightarrow>
   checked_names (check_calls (map (atomic_attrs res) srs) rs) = map first_name srs"
  by (induction srs rs rule: list_induct2') (simp_all add: check_calls_def atomic_attrs_def)

lemma first_name_hd:
  "first_name sr = (if ResourceNames sr = [] then '''' else hd (ResourceNames sr))"
  by (cases "ResourceNames sr") (simp_all add: first_name_def)

text \<open>The loop on any list of subrules: it runs up to the first one it cannot read.\<close>

lemma subrules_loop_run:
  "subrules_loop bv res srs acc (w, cs) =
     (case answers bv (map (atomic_attrs res) (takeWhile indexable srs)) w of
        (rs, w') \<Rightarrow>
          (if list_all indexable srs then Some (acc @ failures rs) else None,
           (w', cs @ check_calls (map (atomic_attrs res) (takeWhile indexable srs)) rs)))"
proof (induction srs arbitrary: acc w cs)
  case Nil
  show ?case by (simp add: failures_def check_calls_def)
next
  case (Cons sr srs)
  show ?case
  proof (cases "indexable sr")
    case False
    then show ?thesis
      by (simp add: subrules_loop_panics check_calls_def del: subrules_loop.simps)
  next
    case True
    obtain r w1 where r: "ssarClient bv (atomic_attrs res sr) w = (r, w1)"
      by (cases "ssarClient bv (atomic_attrs res sr) w")
    obtain rs w2
      where rs: "answers bv (map (atomic_attrs res) (takeWhile indexable srs)) w1 = (rs, w2)"
      by (cases "answers bv (map (atomic_attrs res) (takeWhile indexable srs)) w1")
    show ?thesis
    proof (cases r)
      case None
      with r rs True show ?thesis
        by (simp add: subrules_loop_Cons [OF True] ValidatePermissions_def Cons.IH
              failures_def check_calls_def del: subrules_loop.simps)
    next
      case (Some e)
      with r rs True show ?thesis
        by (simp add: subrules_loop_Cons [OF True] ValidatePermissions_def Cons.IH
              failures_def check_calls_def del: subrules_loop.simps)
    qed
  qed
qed

section \<open>Addressing\<close>

text \<open>
  C10. For every verb, also one outside create and update, \<open>Validate\<close> first resolves
  the REST addressing of the binding resource; when the mapping fails, \<open>Validate\<close>
  returns the mapping's error and the mapping call is the only call made: no permission
  check is issued.
\<close>

theorem Validate_mapping_error:
  assumes "mapper bv (Resource_GroupKind res) (res_Version res) w = (Inl err, w')"
  shows "Validate breakdown bv res verb (w, cs)
           = (Returns (Some err), (w', cs @ [mapping_call res (Inl err)]))"
  using assms
  by (simp add: Validate_def RESTMapping_def Resource_GroupVersion_def mapping_call_def)

theorem Validate_mapping_error_witness:
  "mapper deleter_bv (Resource_GroupKind stray_gadget) (res_Version stray_gadget) 0
     = (Inl (AddressingError ''Gadget''), 1)
   \<and> Validate BreakdownRule deleter_bv stray_gadget ''delete'' (0, [])
     = (Returns (Some (AddressingError ''Gadget'')),
        (1, [mapping_call stray_gadget (Inl (AddressingError ''Gadget''))]))"
proof -
  have m: "mapper deleter_bv (Resource_GroupKind stray_gadget) (res_Version stray_gadget) 0
             = (Inl (AddressingError ''Gadget''), 1)"
    by (simp add: deleter_bv_def fake_bv_def fake_mapper_def Resource_GroupKind_def
          stray_gadget_def)
  from Validate_mapping_error [OF m, of BreakdownRule "''delete''" "[]"] m
  show ?thesis by simp
qed

section \<open>The bind shortcut\<close>

text \<open>
  C2. For the verbs create and update, when the permission check for the synthetic verb
  \<open>bind\<close> on the binding resource answers allowed, \<open>Validate\<close> returns nil
  (authorized); the mapping call and the bind check are the only calls made: the rules of
  the referenced role are not resolved and no further permission is checked.
\<close>

theorem Validate_bind_shortcut:
  assumes "verb = ''create'' \<or> verb = ''update''"
    and "mapper bv (Resource_GroupKind res) (res_Version res) w = (Inr mapping, w1)"
    and "ssarClient bv (binding_attrs mapping res ''bind'') w1 = (None, w2)"
  shows "Validate breakdown bv res verb (w, cs) =
     (Returns None,
      (w2, cs @ [mapping_call res (Inr mapping), bind_call mapping res None]))"
  using assms(1,3)
  by (simp add: Validate_head [OF assms(2)] ValidatePermissions_def bind_call_def)

theorem Validate_bind_shortcut_witness:
  "mapper binder_bv (Resource_GroupKind pod_binding) (res_Version pod_binding) 0
     = (Inr pod_mapping, 1)
   \<and> ssarClient binder_bv (binding_attrs pod_mapping pod_binding ''bind'') 1 = (None, 2)
   \<and> Validate BreakdownRule binder_bv pod_binding ''create'' (0, []) =
      (Returns None,
       (2, [mapping_call pod_binding (Inr pod_mapping), bind_call pod_mapping pod_binding None]))"
proof -
  have v: "''create'' = ''create'' \<or> ''create'' = ''update''"
    by simp
  have m: "mapper binder_bv (Resource_GroupKind pod_binding) (res_Version pod_binding) 0
             = (Inr pod_mapping, 1)"
    by (simp add: binder_bv_def fake_bv_def fake_mapper_def Resource_GroupKind_def
          pod_binding_def pod_mapping_def)
  have b: "ssarClient binder_bv (binding_attrs pod_mapping pod_binding ''bind'') 1 = (None, 2)"
    by (simp add: binder_bv_def fake_bv_def fake_ssar_def binding_attrs_def pod_mapping_def)
  from Validate_bind_shortcut [OF v m b, of BreakdownRule "[]"] m b
  show ?thesis by simp
qed

section \<open>The direct-access gate\<close>

text \<open>
  C3. For the verbs create and update, when the bind check and the direct check of the
  verb on the binding resource are both refused, \<open>Validate\<close> returns the error of the
  direct check itself; the log ends with that check, so the rules of the referenced role
  are not resolved, and the error is not wrapped into a privilege-escalation error.
\<close>

theorem Validate_direct_denial:
  assumes "verb = ''create'' \<or> verb = ''update''"
    and "mapper bv (Resource_GroupKind res) (res_Version res) w = (Inr mapping, w1)"
    and "ssarClient bv (binding_attrs mapping res ''bind'') w1 = (Some e1, w2)"
    and "ssarClient bv (binding_attrs mapping res verb) w2 = (Some e2, w3)"
  shows "Validate breakdown bv res verb (w, cs) =
     (Returns (Some e2),
      (w3, cs @ [mapping_call res (Inr mapping), bind_call mapping res (Some e1),
                 verb_call mapping res verb (Some e2)]))"
  using assms(1,3,4)
  by (simp add: Validate_head [OF assms(2)] ValidatePermissions_def bind_call_def
        verb_call_def)

theorem Validate_direct_denial_witness:
  "mapper outsider_bv (Resource_GroupKind pod_binding) (res_Version pod_binding) 0
     = (Inr pod_mapping, 1)
   \<and> ssarClient outsider_bv (binding_attrs pod_mapping pod_binding ''bind'') 1
     = (Some (PermissionDeniedError ''bind rolebindings''), 2)
   \<and> ssarClient outsider_bv (binding_attrs pod_mapping pod_binding ''update'') 2
     = (Some (PermissionDeniedError ''update rolebindings''), 3)
   \<and> Validate BreakdownRule outsider_bv pod_binding ''update'' (0, []) =
      (Returns (Some (PermissionDeniedError ''update rolebindings'')),
       (3, [mapping_call pod_binding (Inr pod_mapping),
            bind_call pod_mapping pod_binding (Some (PermissionDeniedError ''bind rolebindings'')),
            verb_call pod_mapping pod_binding ''update''
              (Some (PermissionDeniedError ''update rolebindings''))]))"
proof -
  have v: "''update'' = ''create'' \<or> ''update'' = ''update''"
    by simp
  have m: "mapper outsider_bv (Resource_GroupKind pod_binding) (res_Version pod_binding) 0
             = (Inr pod_mapping, 1)"
    by (simp add: outsider_bv_def fake_bv_def fake_mapper_def Resource_GroupKind_def
          pod_binding_def pod_mapping_def)
  have b: "ssarClient outsider_bv (binding_attrs pod_mapping pod_binding ''bind'') 1
             = (Some (PermissionDeniedError ''bind rolebindings''), 2)"
    by (simp add: outsider_bv_def fake_bv_def fake_ssar_def binding_attrs_def pod_mapping_def)
  have d: "ssarClient outsider_bv (binding_attrs pod_mapping pod_binding ''update'') 2
             = (Some (PermissionDeniedError ''update rolebindings''), 3)"
    by (simp add: outsider_bv_def fake_bv_def fake_ssar_def binding_attrs_def pod_mapping_def)
  from Validate_direct_denial [OF v m b d, of BreakdownRule "[]"] m b d
  show ?thesis by simp
qed

section \<open>Verbs other than create and update\<close>

text \<open>
  C6, as the code has it. For a verb other than create and update, \<open>Validate\<close> resolves
  the addressing of the resource and then makes one direct permission check of that verb
  on the binding resource, whose answer it returns unchanged; when the addressing cannot
  be resolved it returns the mapping's error and checks nothing. In both cases the log
  holds no resolution of the role's rules.
\<close>

theorem Validate_other_verb:
  assumes "verb \<noteq> ''create''" and "verb \<noteq> ''update''"
  shows "Validate breakdown bv res verb (w, cs) =
     (case mapper bv (Resource_GroupKind res) (res_Version res) w of
        (Inl err, w1) \<Rightarrow> (Returns (Some err), (w1, cs @ [mapping_call res (Inl err)]))
      | (Inr mapping, w1) \<Rightarrow>
          (case ssarClient bv (binding_attrs mapping res verb) w1 of
             (r, w2) \<Rightarrow>
               (Returns r,
                (w2, cs @ [mapping_call res (Inr mapping), verb_call mapping res verb r]))))"
proof -
  obtain q w1 where q: "mapper bv (Resource_GroupKind res) (res_Version res) w = (q, w1)"
    by (cases "mapper bv (Resource_GroupKind res) (res_Version res) w")
  show ?thesis
  proof (cases q)
    case (Inl err)
    with q show ?thesis
      by (simp add: Validate_def RESTMapping_def Resource_GroupVersion_def mapping_call_def)
  next
    case (Inr mapping)
    with q have m: "mapper bv (Resource_GroupKind res) (res_Version res) w = (Inr mapping, w1)"
      by simp
    from assms show ?thesis
      by (simp add: Validate_head [OF m] m ValidatePermissions_def verb_call_def
            split: prod.splits)
  qed
qed

theorem Validate_other_verb_witness:
  "''delete'' \<noteq> ''create'' \<and> ''delete'' \<noteq> ''update''
   \<and> Validate BreakdownRule deleter_bv pod_binding ''delete'' (0, []) =
      (Returns (Some (PermissionDeniedError ''delete rolebindings'')),
       (2, [mapping_call pod_binding (Inr pod_mapping),
            verb_call pod_mapping pod_binding ''delete''
              (Some (PermissionDeniedError ''delete rolebindings''))]))"
proof -
  have v1: "''delete'' \<noteq> ''create''" and v2: "''delete'' \<noteq> ''update''"
    by simp_all
  have m: "mapper deleter_bv (Resource_GroupKind pod_binding) (res_Version pod_binding) 0
             = (Inr pod_mapping, 1)"
    by (simp add: deleter_bv_def fake_bv_def fake_mapper_def Resource_GroupKind_def
          pod_binding_def pod_mapping_def)
  have d: "ssarClient deleter_bv (binding_attrs pod_mapping pod_binding ''delete'') (Suc 0)
             = (Some (PermissionDeniedError ''delete rolebindings''), 2)"
    by (simp add: deleter_bv_def fake_bv_def fake_ssar_def binding_attrs_def pod_mapping_def)
  from Validate_other_verb [OF v1 v2, where breakdown = BreakdownRule and bv = deleter_bv
         and res = pod_binding and w = 0 and cs = "[]"] v1 v2
  show ?thesis by (simp add: m d)
qed

text \<open>
  C6 as the spec words it fails: for \<open>delete\<close> on a resource whose kind the mapper does
  not know, the result of \<open>Validate\<close> is the mapping's error, and no permission check is
  made whose answer it could be.
\<close>

theorem Validate_other_verb_unmappable:
  "Validate BreakdownRule deleter_bv stray_gadget ''delete'' (0, []) =
     (Returns (Some (AddressingError ''Gadget'')),
      (1, [mapping_call stray_gadget (Inl (AddressingError ''Gadget''))]))"
  by (simp add: Validate_def RESTMapping_def deleter_bv_def fake_bv_def fake_mapper_def
        Resource_GroupKind_def Resource_GroupVersion_def stray_gadget_def mapping_call_def)

section \<open>Resolution of the role\<close>

text \<open>
  C9. In the escalation path (create or update, bind refused, the verb allowed), when
  the rules of the referenced role cannot be resolved, \<open>Validate\<close> returns the
  resolution error wrapped by \<open>fetching rules for binding\<close>; the log ends with the
  resolution call, so no atomic permission is checked, and the error is not a
  privilege-escalation error.
\<close>

theorem Validate_rules_error:
  assumes "verb = ''create'' \<or> verb = ''update''"
    and "mapper bv (Resource_GroupKind res) (res_Version res) w = (Inr mapping, w1)"
    and "ssarClient bv (binding_attrs mapping res ''bind'') w1 = (Some e1, w2)"
    and "ssarClient bv (binding_attrs mapping res verb) w2 = (None, w3)"
    and "rbacClient bv res w3 = (Inl err, w4)"
  shows "Validate breakdown bv res verb (w, cs) =
     (Returns (Some (ErrorfW ''fetching rules for binding: %w'' err)),
      (w4, cs @ [mapping_call res (Inr mapping), bind_call mapping res (Some e1),
                 verb_call mapping res verb None, RulesForBindingCall res (Inl err)]))
     \<and> (\<forall>errs. ErrorfW ''fetching rules for binding: %w'' err
                 \<noteq> PrivilegeEscalationError verb res errs)"
  using assms(1,3,4,5)
  by (simp add: Validate_head [OF assms(2)] ValidatePermissions_def RulesForBinding_def
        bind_call_def verb_call_def PrivilegeEscalationError_def)

theorem Validate_rules_error_witness:
  "mapper orphan_bv (Resource_GroupKind pod_binding) (res_Version pod_binding) 0
     = (Inr pod_mapping, 1)
   \<and> ssarClient orphan_bv (binding_attrs pod_mapping pod_binding ''bind'') 1
     = (Some (PermissionDeniedError ''bind rolebindings''), 2)
   \<and> ssarClient orphan_bv (binding_attrs pod_mapping pod_binding ''create'') 2 = (None, 3)
   \<and> rbacClient orphan_bv pod_binding 3 = (Inl (NotFoundError ''reader''), 4)
   \<and> Validate BreakdownRule orphan_bv pod_binding ''create'' (0, []) =
      (Returns (Some (ErrorfW ''fetching rules for binding: %w'' (NotFoundError ''reader''))),
       (4, [mapping_call pod_binding (Inr pod_mapping),
            bind_call pod_mapping pod_binding (Some (PermissionDeniedError ''bind rolebindings'')),
            verb_call pod_mapping pod_binding ''create'' None,
            RulesForBindingCall pod_binding (Inl (NotFoundError ''reader''))]))"
proof -
  have v: "''create'' = ''create'' \<or> ''create'' = ''update''"
    by simp
  have m: "mapper orphan_bv (Resource_GroupKind pod_binding) (res_Version pod_binding) 0
             = (Inr pod_mapping, 1)"
    by (simp add: orphan_bv_def fake_bv_def fake_mapper_def Resource_GroupKind_def
          pod_binding_def pod_mapping_def)
  have b: "ssarClient orphan_bv (binding_attrs pod_mapping pod_binding ''bind'') 1
             = (Some (PermissionDeniedError ''bind rolebindings''), 2)"
    by (simp add: orphan_bv_def fake_bv_def fake_ssar_def binding_attrs_def pod_mapping_def)
  have d: "ssarClient orphan_bv (binding_attrs pod_mapping pod_binding ''create'') 2 = (None, 3)"
    by (simp add: orphan_bv_def fake_bv_def fake_ssar_def binding_attrs_def pod_mapping_def)
  have r: "rbacClient orphan_bv pod_binding 3 = (Inl (NotFoundError ''reader''), 4)"
    by (simp add: orphan_bv_def fake_bv_def fake_rbac_def)
  from Validate_rules_error [OF v m b d r, of BreakdownRule "[]"] m b d r
  show ?thesis by simp
qed

section \<open>The escalation check\<close>

text \<open>
  Where every subrule of the decomposition has a first API group, a first resource and a
  first verb, the escalation check is complete: every subrule is checked exactly once, in
  order, whatever the earlier answers were (the log pairs each subrule with one answer,
  and there are as many answers as subrules); the error of every check that is refused
  or fails is collected; and when there is one, \<open>Validate\<close> fails with the
  privilege-escalation error, which carries the verb, the fully-qualified kind of the
  binding and all the collected errors.
\<close>

theorem Validate_escalation_checks_every_rule:
  assumes "verb = ''create'' \<or> verb = ''update''"
    and "mapper bv (Resource_GroupKind res) (res_Version res) w = (Inr mapping, w1)"
    and "ssarClient bv (binding_attrs mapping res ''bind'') w1 = (Some e1, w2)"
    and "ssarClient bv (binding_attrs mapping res verb) w2 = (None, w3)"
    and "rbacClient bv res w3 = (Inr rules, w4)"
    and "list_all indexable (decompose_all breakdown rules)"
    and "answers bv (map (atomic_attrs res) (decompose_all breakdown rules)) w4 = (rs, w5)"
  shows "length rs = length (decompose_all breakdown rules)
     \<and> Validate breakdown bv res verb (w, cs) =
       (Returns (if failures rs = [] then None
                 else Some (PrivilegeEscalationError verb res (failures rs))),
        (w5, cs @ [mapping_call res (Inr mapping), bind_call mapping res (Some e1),
                   verb_call mapping res verb None, RulesForBindingCall res (Inr rules)]
               @ check_calls (map (atomic_attrs res) (decompose_all breakdown rules)) rs))"
proof
  from answers_length [OF assms(7)]
  show "length rs = length (decompose_all breakdown rules)" by simp
  from assms show "Validate breakdown bv res verb (w, cs) =
       (Returns (if failures rs = [] then None
                 else Some (PrivilegeEscalationError verb res (failures rs))),
        (w5, cs @ [mapping_call res (Inr mapping), bind_call mapping res (Some e1),
                   verb_call mapping res verb None, RulesForBindingCall res (Inr rules)]
               @ check_calls (map (atomic_attrs res) (decompose_all breakdown rules)) rs))"
    by (rule Validate_escalation_path)
qed

theorem Validate_escalation_checks_every_rule_witness:
  "mapper get_only_bv (Resource_GroupKind pod_binding) (res_Version pod_binding) 0
     = (Inr pod_mapping, 1)
   \<and> ssarClient get_only_bv (binding_attrs pod_mapping pod_binding ''bind'') 1
     = (Some (PermissionDeniedError ''bind rolebindings''), 2)
   \<and> ssarClient get_only_bv (binding_attrs pod_mapping pod_binding ''create'') 2 = (None, 3)
   \<and> rbacClient get_only_bv pod_binding 3 = (Inr pod_reader, 4)
   \<and> list_all indexable (decompose_all BreakdownRule pod_reader)
   \<and> answers get_only_bv (map (atomic_attrs pod_binding) (decompose_all BreakdownRule pod_reader)) 4
     = ([None, Some (PermissionDeniedError ''list pods''),
         Some (PermissionDeniedError ''get services''),
         Some (PermissionDeniedError ''list services'')], 8)
   \<and> Validate BreakdownRule get_only_bv pod_binding ''create'' (0, []) =
      (Returns (Some (Join
         [Errorf ''potential privilege escalation, not permitted to %q %s''
            [''create'', ''rbac/v1, Kind=RoleBinding''],
          PermissionDeniedError ''list pods'',
          PermissionDeniedError ''get services'',
          PermissionDeniedError ''list services''])),
       (8, [mapping_call pod_binding (Inr pod_mapping),
            bind_call pod_mapping pod_binding (Some (PermissionDeniedError ''bind rolebindings'')),
            verb_call pod_mapping pod_binding ''create'' None,
            RulesForBindingCall pod_binding (Inr pod_reader),
            core_check ''pods'' '''' ''get'' None,
            core_check ''pods'' '''' ''list'' (Some (PermissionDeniedError ''list pods'')),
            core_check ''services'' '''' ''get'' (Some (PermissionDeniedError ''get services'')),
            core_check ''services'' '''' ''list''
              (Some (PermissionDeniedError ''list services''))]))"
proof -
  have v: "''create'' = ''create'' \<or> ''create'' = ''update''"
    by simp
  have m: "mapper get_only_bv (Resource_GroupKind pod_binding) (res_Version pod_binding) 0
             = (Inr pod_mapping, 1)"
    by (simp add: get_only_bv_def fake_bv_def fake_mapper_def Resource_GroupKind_def
          pod_binding_def pod_mapping_def)
  have b: "ssarClient get_only_bv (binding_attrs pod_mapping pod_binding ''bind'') 1
             = (Some (PermissionDeniedError ''bind rolebindings''), 2)"
    by (simp add: get_only_bv_def fake_bv_def fake_ssar_def binding_attrs_def pod_mapping_def)
  have d: "ssarClient get_only_bv (binding_attrs pod_mapping pod_binding ''create'') 2 = (None, 3)"
    by (simp add: get_only_bv_def fake_bv_def fake_ssar_def binding_attrs_def pod_mapping_def)
  have r: "rbacClient get_only_bv pod_binding 3 = (Inr pod_reader, 4)"
    by (simp add: get_only_bv_def fake_bv_def fake_rbac_def)
  have dec: "decompose_all BreakdownRule pod_reader =
      [\<lparr>Verbs = [''get''], APIGroups = [''''], Resources = [''pods''], ResourceNames = []\<rparr>,
       \<lparr>Verbs = [''list''], APIGroups = [''''], Resources = [''pods''], ResourceNames = []\<rparr>,
       \<lparr>Verbs = [''get''], APIGroups = [''''], Resources = [''services''], ResourceNames = []\<rparr>,
       \<lparr>Verbs = [''list''], APIGroups = [''''], Resources = [''services''], ResourceNames = []\<rparr>]"
    by (simp add: decompose_all_def BreakdownRule_def pod_reader_def)
  have ix: "list_all indexable (decompose_all BreakdownRule pod_reader)"
    by (simp add: dec indexable_def)
  have a: "answers get_only_bv
             (map (atomic_attrs pod_binding) (decompose_all BreakdownRule pod_reader)) 4
     = ([None, Some (PermissionDeniedError ''list pods''),
         Some (PermissionDeniedError ''get services''),
         Some (PermissionDeniedError ''list services'')], 8)"
    by (simp add: dec atomic_attrs_def first_name_def get_only_bv_def fake_bv_def fake_ssar_def)
  have c: "Validate BreakdownRule get_only_bv pod_binding ''create'' (0, []) =
      (Returns (Some (Join
         [Errorf ''potential privilege escalation, not permitted to %q %s''
            [''create'', ''rbac/v1, Kind=RoleBinding''],
          PermissionDeniedError ''list pods'',
          PermissionDeniedError ''get services'',
          PermissionDeniedError ''list services''])),
       (8, [mapping_call pod_binding (Inr pod_mapping),
            bind_call pod_mapping pod_binding (Some (PermissionDeniedError ''bind rolebindings'')),
            verb_call pod_mapping pod_binding ''create'' None,
            RulesForBindingCall pod_binding (Inr pod_reader),
            core_check ''pods'' '''' ''get'' None,
            core_check ''pods'' '''' ''list'' (Some (PermissionDeniedError ''list pods'')),
            core_check ''services'' '''' ''get'' (Some (PermissionDeniedError ''get services'')),
            core_check ''services'' '''' ''list''
              (Some (PermissionDeniedError ''list services''))]))"
    using Validate_escalation_checks_every_rule [OF v m b d r ix a, of "[]"]
    by (simp add: dec failures_def check_calls_def atomic_attrs_def first_name_def
          core_check_def PrivilegeEscalationError_def pod_binding_def)
  from m b d r ix a c show ?thesis by blast
qed

text \<open>
  Under the same condition on the subrules, when every atomic permission check is
  allowed, \<open>Validate\<close> returns nil (authorized).
\<close>

theorem Validate_escalation_success:
  assumes "verb = ''create'' \<or> verb = ''update''"
    and "mapper bv (Resource_GroupKind res) (res_Version res) w = (Inr mapping, w1)"
    and "ssarClient bv (binding_attrs mapping res ''bind'') w1 = (Some e1, w2)"
    and "ssarClient bv (binding_attrs mapping res verb) w2 = (None, w3)"
    and "rbacClient bv res w3 = (Inr rules, w4)"
    and "list_all indexable (decompose_all breakdown rules)"
    and "answers bv (map (atomic_attrs res) (decompose_all breakdown rules)) w4 = (rs, w5)"
    and "list_all (\<lambda>r. r = None) rs"
  shows "Validate breakdown bv res verb (w, cs) =
       (Returns None,
        (w5, cs @ [mapping_call res (Inr mapping), bind_call mapping res (Some e1),
                   verb_call mapping res verb None, RulesForBindingCall res (Inr rules)]
               @ check_calls (map (atomic_attrs res) (decompose_all breakdown rules)) rs))"
  using Validate_escalation_path [OF assms(1-7)] failures_all_allowed [OF assms(8)]
  by simp

theorem Validate_escalation_success_witness:
  "mapper reader_bv (Resource_GroupKind pod_binding) (res_Version pod_binding) 0
     = (Inr pod_mapping, 1)
   \<and> ssarClient reader_bv (binding_attrs pod_mapping pod_binding ''bind'') 1
     = (Some (PermissionDeniedError ''bind rolebindings''), 2)
   \<and> ssarClient reader_bv (binding_attrs pod_mapping pod_binding ''update'') 2 = (None, 3)
   \<and> rbacClient reader_bv pod_binding 3 = (Inr pod_reader, 4)
   \<and> list_all indexable (decompose_all BreakdownRule pod_reader)
   \<and> answers reader_bv (map (atomic_attrs pod_binding) (decompose_all BreakdownRule pod_reader)) 4
     = ([None, None, None, None], 8)
   \<and> list_all (\<lambda>r. r = None) [None, None, None, None :: error option]
   \<and> Validate BreakdownRule reader_bv pod_binding ''update'' (0, []) =
      (Returns None,
       (8, [mapping_call pod_binding (Inr pod_mapping),
            bind_call pod_mapping pod_binding (Some (PermissionDeniedError ''bind rolebindings'')),
            verb_call pod_mapping pod_binding ''update'' None,
            RulesForBindingCall pod_binding (Inr pod_reader),
            core_check ''pods'' '''' ''get'' None,
            core_check ''pods'' '''' ''list'' None,
            core_check ''services'' '''' ''get'' None,
            core_check ''services'' '''' ''list'' None]))"
proof -
  have v: "''update'' = ''create'' \<or> ''update'' = ''update''"
    by simp
  have m: "mapper reader_bv (Resource_GroupKind pod_binding) (res_Version pod_binding) 0
             = (Inr pod_mapping, 1)"
    by (simp add: reader_bv_def fake_bv_def fake_mapper_def Resource_GroupKind_def
          pod_binding_def pod_mapping_def)
  have b: "ssarClient reader_bv (binding_attrs pod_mapping pod_binding ''bind'') 1
             = (Some (PermissionDeniedError ''bind rolebindings''), 2)"
    by (simp add: reader_bv_def fake_bv_def fake_ssar_def binding_attrs_def pod_mapping_def)
  have d: "ssarClient reader_bv (binding_attrs pod_mapping pod_binding ''update'') 2 = (None, 3)"
    by (simp add: reader_bv_def fake_bv_def fake_ssar_def binding_attrs_def pod_mapping_def)
  have r: "rbacClient reader_bv pod_binding 3 = (Inr pod_reader, 4)"
    by (simp add: reader_bv_def fake_bv_def fake_rbac_def)
  have dec: "decompose_all BreakdownRule pod_reader =
      [\<lparr>Verbs = [''get''], APIGroups = [''''], Resources = [''pods''], ResourceNames = []\<rparr>,
       \<lparr>Verbs = [''list''], APIGroups = [''''], Resources = [''pods''], ResourceNames = []\<rparr>,
       \<lparr>Verbs = [''get''], APIGroups = [''''], Resources = [''services''], ResourceNames = []\<rparr>,
       \<lparr>Verbs = [''list''], APIGroups = [''''], Resources = [''services''], ResourceNames = []\<rparr>]"
    by (simp add: decompose_all_def BreakdownRule_def pod_reader_def)
  have ix: "list_all indexable (decompose_all BreakdownRule pod_reader)"
    by (simp add: dec indexable_def)
  have a: "answers reader_bv
             (map (atomic_attrs pod_binding) (decompose_all BreakdownRule pod_reader)) 4
     = ([None, None, None, None], 8)"
    by (simp add: dec atomic_attrs_def first_name_def reader_bv_def fake_bv_def fake_ssar_def)
  have ok: "list_all (\<lambda>r. r = None) [None, None, None, None :: error option]"
    by simp
  have c: "Validate BreakdownRule reader_bv pod_binding ''update'' (0, []) =
      (Returns None,
       (8, [mapping_call pod_binding (Inr pod_mapping),
            bind_call pod_mapping pod_binding (Some (PermissionDeniedError ''bind rolebindings'')),
            verb_call pod_mapping pod_binding ''update'' None,
            RulesForBindingCall pod_binding (Inr pod_reader),
            core_check ''pods'' '''' ''get'' None,
            core_check ''pods'' '''' ''list'' None,
            core_check ''services'' '''' ''get'' None,
            core_check ''services'' '''' ''list'' None]))"
    using Validate_escalation_success [OF v m b d r ix a ok, where cs = "[]"]
    by (simp add: dec check_calls_def atomic_attrs_def first_name_def core_check_def
          pod_binding_def)
  from m b d r ix a ok c show ?thesis by blast
qed

text \<open>
  C4. In the escalation path every atomic rule decomposed from the rules of the
  referenced role is to be checked exactly once, with no exit before the last one, and
  the refused checks are to be reported in a privilege-escalation error. The code breaks
  this on a role with a rule on a non-resource URL. Here the role lists pods, reads such
  a URL and gets services; the principal may create bindings and holds none of the three.
  The check of \<open>list pods\<close> is refused and collected; then the subrule of the URL, which
  names no API group, makes \<open>Validate\<close> panic at \<open>subrule.APIGroups[0]\<close>:
  \<open>get services\<close> is never checked and no privilege-escalation error is returned.
\<close>

theorem Validate_panics_before_every_rule_is_checked:
  "Validate breakdown_urls mixed_bv pod_binding ''create'' (0, []) =
     (Panics,
      (5, [mapping_call pod_binding (Inr pod_mapping),
           bind_call pod_mapping pod_binding (Some (PermissionDeniedError ''bind rolebindings'')),
           verb_call pod_mapping pod_binding ''create'' None,
           RulesForBindingCall pod_binding (Inr mixed_reader),
           core_check ''pods'' '''' ''list'' (Some (PermissionDeniedError ''list pods''))]))"
  by (simp add: Validate_def RESTMapping_def ValidatePermissions_def RulesForBinding_def
        mixed_bv_def fake_bv_def fake_mapper_def fake_ssar_def fake_rbac_def
        Resource_GroupKind_def Resource_GroupVersion_def pod_binding_def pod_mapping_def
        mapping_call_def bind_call_def verb_call_def binding_attrs_def core_check_def
        mixed_reader_def url_rule_def breakdown_urls_def BreakdownRule_def)

text \<open>
  C5. When the principal lacks \<open>bind\<close>, holds the verb on the binding resource, and every
  atomic permission check succeeds, \<open>Validate\<close> is to return nil. The code breaks this on
  a role with a rule on a non-resource URL. Here the role gets pods and reads such a URL;
  the principal may create bindings and may get pods. Every permission check that is
  issued is allowed and no failure is collected, yet \<open>Validate\<close> panics on the subrule
  of the URL instead of returning nil.
\<close>

theorem Validate_panics_with_every_check_allowed:
  "Validate breakdown_urls health_bv pod_binding ''create'' (0, []) =
     (Panics,
      (5, [mapping_call pod_binding (Inr pod_mapping),
           bind_call pod_mapping pod_binding (Some (PermissionDeniedError ''bind rolebindings'')),
           verb_call pod_mapping pod_binding ''create'' None,
           RulesForBindingCall pod_binding (Inr health_reader),
           core_check ''pods'' '''' ''get'' None]))"
  by (simp add: Validate_def RESTMapping_def ValidatePermissions_def RulesForBinding_def
        health_bv_def fake_bv_def fake_mapper_def fake_ssar_def fake_rbac_def
        Resource_GroupKind_def Resource_GroupVersion_def pod_binding_def pod_mapping_def
        mapping_call_def bind_call_def verb_call_def binding_attrs_def core_check_def
        health_reader_def url_rule_def breakdown_urls_def BreakdownRule_def)

text \<open>
  C8. In the escalation path, the permission check of a subrule with resource names is
  made under the first of its names, and the check of a subrule without resource names is
  made under the empty name: the names of the checks in the log (the entries after the
  four calls that lead to the loop) are these, subrule by subrule.
\<close>

theorem Validate_checks_first_resource_name:
  assumes "verb = ''create'' \<or> verb = ''update''"
    and "mapper bv (Resource_GroupKind res) (res_Version res) w = (Inr mapping, w1)"
    and "ssarClient bv (binding_attrs mapping res ''bind'') w1 = (Some e1, w2)"
    and "ssarClient bv (binding_attrs mapping res verb) w2 = (None, w3)"
    and "rbacClient bv res w3 = (Inr rules, w4)"
    and "list_all indexable (decompose_all breakdown rules)"
  shows "checked_names (drop (length cs + 4)
            (snd (snd (Validate breakdown bv res verb (w, cs)))))
     = map (\<lambda>sr. if ResourceNames sr = [] then '''' else hd (ResourceNames sr))
         (decompose_all breakdown rules)"
proof -
  obtain rs w5
    where a: "answers bv (map (atomic_attrs res) (decompose_all breakdown rules)) w4 = (rs, w5)"
    by (cases "answers bv (map (atomic_attrs res) (decompose_all breakdown rules)) w4")
  from answers_length [OF a] have len: "length rs = length (decompose_all breakdown rules)"
    by simp
  have "map first_name (decompose_all breakdown rules)
      = map (\<lambda>sr. if ResourceNames sr = [] then '''' else hd (ResourceNames sr))
          (decompose_all breakdown rules)"
    by (simp add: first_name_hd)
  with checked_names_check_calls [OF len, of res] Validate_escalation_path [OF assms a, of cs]
  show ?thesis by simp
qed

theorem Validate_checks_first_resource_name_witness:
  "mapper named_bv (Resource_GroupKind pod_binding) (res_Version pod_binding) 0
     = (Inr pod_mapping, 1)
   \<and> ssarClient named_bv (binding_attrs pod_mapping pod_binding ''bind'') 1
     = (Some (PermissionDeniedError ''bind rolebindings''), 2)
   \<and> ssarClient named_bv (binding_attrs pod_mapping pod_binding ''create'') 2 = (None, 3)
   \<and> rbacClient named_bv pod_binding 3 = (Inr named_reader, 4)
   \<and> list_all indexable (decompose_all (\<lambda>rule. [rule]) named_reader)
   \<and> map ResourceNames (decompose_all (\<lambda>rule. [rule]) named_reader) = [[''a'', ''b''], []]
   \<and> checked_names (drop 4
        (snd (snd (Validate (\<lambda>rule. [rule]) named_bv pod_binding ''create'' (0, [])))))
     = [''a'', '''']"
proof -
  have v: "''create'' = ''create'' \<or> ''create'' = ''update''"
    by simp
  have m: "mapper named_bv (Resource_GroupKind pod_binding) (res_Version pod_binding) 0
             = (Inr pod_mapping, 1)"
    by (simp add: named_bv_def fake_bv_def fake_mapper_def Resource_GroupKind_def
          pod_binding_def pod_mapping_def)
  have b: "ssarClient named_bv (binding_attrs pod_mapping pod_binding ''bind'') 1
             = (Some (PermissionDeniedError ''bind rolebindings''), 2)"
    by (simp add: named_bv_def fake_bv_def fake_ssar_def binding_attrs_def pod_mapping_def)
  have d: "ssarClient named_bv (binding_attrs pod_mapping pod_binding ''create'') 2 = (None, 3)"
    by (simp add: named_bv_def fake_bv_def fake_ssar_def binding_attrs_def pod_mapping_def)
  have r: "rbacClient named_bv pod_binding 3 = (Inr named_reader, 4)"
    by (simp add: named_bv_def fake_bv_def fake_rbac_def)
  have ix: "list_all indexable (decompose_all (\<lambda>rule. [rule]) named_reader)"
    by (simp add: decompose_all_def indexable_def named_reader_def)
  have n: "map ResourceNames (decompose_all (\<lambda>rule. [rule]) named_reader) = [[''a'', ''b''], []]"
    by (simp add: decompose_all_def named_reader_def)
  have c: "checked_names (drop 4
        (snd (snd (Validate (\<lambda>rule. [rule]) named_bv pod_binding ''create'' (0, [])))))
     = [''a'', '''']"
    using Validate_checks_first_resource_name [OF v m b d r ix, where cs = "[]"]
    by (simp add: decompose_all_def named_reader_def)
  from m b d r ix n c show ?thesis by blast
qed

section \<open>A failure of the bind check\<close>

text \<open>
  C1, as the code has it. For the verbs create and update, when the bind check fails for
  any reason, a refusal or a transport failure alike, the validator goes on to the direct
  check of the verb, and what \<open>Validate\<close> returns is decided by that check and the steps
  after it alone: the error of the direct check when it fails; otherwise the wrapped
  error of the rule resolution, or the outcome of the escalation check. The error of the
  bind check is in the log and nowhere in the value returned.
\<close>

theorem Validate_bind_failure_falls_through:
  assumes "verb = ''create'' \<or> verb = ''update''"
    and "mapper bv (Resource_GroupKind res) (res_Version res) w = (Inr mapping, w1)"
    and "ssarClient bv (binding_attrs mapping res ''bind'') w1 = (Some e, w2)"
  shows "Validate breakdown bv res verb (w, cs) =
     (case ssarClient bv (binding_attrs mapping res verb) w2 of
        (Some e2, w3) \<Rightarrow>
          (Returns (Some e2),
           (w3, cs @ [mapping_call res (Inr mapping), bind_call mapping res (Some e),
                      verb_call mapping res verb (Some e2)]))
      | (None, w3) \<Rightarrow>
          (case rbacClient bv res w3 of
             (Inl err, w4) \<Rightarrow>
               (Returns (Some (ErrorfW ''fetching rules for binding: %w'' err)),
                (w4, cs @ [mapping_call res (Inr mapping), bind_call mapping res (Some e),
                           verb_call mapping res verb None,
                           RulesForBindingCall res (Inl err)]))
           | (Inr rules, w4) \<Rightarrow>
               (case answers bv
                       (map (atomic_attrs res)
                          (takeWhile indexable (decompose_all breakdown rules))) w4 of
                  (rs, w5) \<Rightarrow>
                    (if list_all indexable (decompose_all breakdown rules) then
                       Returns (if failures rs = [] then None
                                else Some (PrivilegeEscalationError verb res (failures rs)))
                     else Panics,
                     (w5, cs @ [mapping_call res (Inr mapping),
                                bind_call mapping res (Some e),
                                verb_call mapping res verb None,
                                RulesForBindingCall res (Inr rules)]
                             @ check_calls
                                 (map (atomic_attrs res)
                                    (takeWhile indexable (decompose_all breakdown rules)))
                                 rs)))))"
  using assms(1,3)
  by (simp add: Validate_head [OF assms(2)] ValidatePermissions_def RulesForBinding_def
        subrules_loop_run bind_call_def verb_call_def
      split: prod.splits option.splits sum.splits)

theorem Validate_bind_failure_falls_through_witness:
  "mapper retry_bv (Resource_GroupKind pod_binding) (res_Version pod_binding) 0
     = (Inr pod_mapping, 1)
   \<and> ssarClient retry_bv (binding_attrs pod_mapping pod_binding ''bind'') 1
     = (Some (TransportError ''timeout''), 2)
   \<and> Validate BreakdownRule retry_bv pod_binding ''create'' (0, []) =
      (Returns (Some (Join
         [Errorf ''potential privilege escalation, not permitted to %q %s''
            [''create'', ''rbac/v1, Kind=RoleBinding''],
          PermissionDeniedError ''list pods'',
          PermissionDeniedError ''get services'',
          PermissionDeniedError ''list services''])),
       (8, [mapping_call pod_binding (Inr pod_mapping),
            bind_call pod_mapping pod_binding (Some (TransportError ''timeout'')),
            verb_call pod_mapping pod_binding ''create'' None,
            RulesForBindingCall pod_binding (Inr pod_reader),
            core_check ''pods'' '''' ''get'' None,
            core_check ''pods'' '''' ''list'' (Some (PermissionDeniedError ''list pods'')),
            core_check ''services'' '''' ''get'' (Some (PermissionDeniedError ''get services'')),
            core_check ''services'' '''' ''list''
              (Some (PermissionDeniedError ''list services''))]))"
proof -
  have v: "''create'' = ''create'' \<or> ''create'' = ''update''"
    by simp
  have m: "mapper retry_bv (Resource_GroupKind pod_binding) (res_Version pod_binding) 0
             = (Inr pod_mapping, 1)"
    by (simp add: retry_bv_def fake_bv_def fake_mapper_def Resource_GroupKind_def
          pod_binding_def pod_mapping_def)
  have b: "ssarClient retry_bv (binding_attrs pod_mapping pod_binding ''bind'') 1
             = (Some (TransportError ''timeout''), 2)"
    by (simp add: retry_bv_def fake_bv_def fake_ssar_def binding_attrs_def pod_mapping_def)
  have d: "ssarClient retry_bv (binding_attrs pod_mapping pod_binding ''create'') 2 = (None, 3)"
    by (simp add: retry_bv_def fake_bv_def fake_ssar_def binding_attrs_def pod_mapping_def)
  have r: "rbacClient retry_bv pod_binding 3 = (Inr pod_reader, 4)"
    by (simp add: retry_bv_def fake_bv_def fake_rbac_def)
  have dec: "decompose_all BreakdownRule pod_reader =
      [\<lparr>Verbs = [''get''], APIGroups = [''''], Resources = [''pods''], ResourceNames = []\<rparr>,
       \<lparr>Verbs = [''list''], APIGroups = [''''], Resources = [''pods''], ResourceNames = []\<rparr>,
       \<lparr>Verbs = [''get''], APIGroups = [''''], Resources = [''services''], ResourceNames = []\<rparr>,
       \<lparr>Verbs = [''list''], APIGroups = [''''], Resources = [''services''], ResourceNames = []\<rparr>]"
    by (simp add: decompose_all_def BreakdownRule_def pod_reader_def)
  have a: "answers retry_bv
             (map (atomic_attrs pod_binding)
                (takeWhile indexable (decompose_all BreakdownRule pod_reader))) 4
     = ([None, Some (PermissionDeniedError ''list pods''),
         Some (PermissionDeniedError ''get services''),
         Some (PermissionDeniedError ''list services'')], 8)"
    by (simp add: dec indexable_def atomic_attrs_def first_name_def retry_bv_def fake_bv_def
          fake_ssar_def)
  have c: "Validate BreakdownRule retry_bv pod_binding ''create'' (0, []) =
      (Returns (Some (Join
         [Errorf ''potential privilege escalation, not permitted to %q %s''
            [''create'', ''rbac/v1, Kind=RoleBinding''],
          PermissionDeniedError ''list pods'',
          PermissionDeniedError ''get services'',
          PermissionDeniedError ''list services''])),
       (8, [mapping_call pod_binding (Inr pod_mapping),
            bind_call pod_mapping pod_binding (Some (TransportError ''timeout'')),
            verb_call pod_mapping pod_binding ''create'' None,
            RulesForBindingCall pod_binding (Inr pod_reader),
            core_check ''pods'' '''' ''get'' None,
            core_check ''pods'' '''' ''list'' (Some (PermissionDeniedError ''list pods'')),
            core_check ''services'' '''' ''get'' (Some (PermissionDeniedError ''get services'')),
            core_check ''services'' '''' ''list''
              (Some (PermissionDeniedError ''list services''))]))"
    using Validate_bind_failure_falls_through
            [OF v m b, where breakdown = BreakdownRule and cs = "[]"]
    by (simp add: d r a)
       (simp add: dec indexable_def failures_def check_calls_def atomic_attrs_def
          first_name_def core_check_def PrivilegeEscalationError_def pod_binding_def)
  from m b c show ?thesis by blast
qed

text \<open>
  C1 as the spec words it fails: here the bind check meets a transport failure,
  and \<open>Validate\<close> neither returns that failure nor stops. It makes the direct check of
  \<open>create\<close>, resolves the rules of the role, and returns nil.
\<close>

theorem Validate_bind_transport_failure_not_propagated:
  "Validate BreakdownRule flaky_bv pod_binding ''create'' (0, []) =
     (Returns None,
      (4, [mapping_call pod_binding (Inr pod_mapping),
           bind_call pod_mapping pod_binding (Some (TransportError ''timeout'')),
           verb_call pod_mapping pod_binding ''create'' None,
           RulesForBindingCall pod_binding (Inr [])]))"
  by (simp add: Validate_def RESTMapping_def ValidatePermissions_def RulesForBinding_def
        flaky_bv_def fake_bv_def fake_mapper_def fake_ssar_def fake_rbac_def
        Resource_GroupKind_def Resource_GroupVersion_def pod_binding_def pod_mapping_def
        mapping_call_def bind_call_def verb_call_def binding_attrs_def)

section \<open>Decomposition\<close>

text \<open>
  C7. The decomposition of a rule is the full cross-product of its API groups, resources
  and verbs, each subrule with exactly one group, one resource and one verb: the rule
  with verbs get and list, the core group, and resources pods and services yields
  exactly the four subrules (pods, get), (pods, list), (services, get) and
  (services, list) of the core group.
\<close>

theorem BreakdownRule_cross_product:
  "BreakdownRule \<lparr>Verbs = [''get'', ''list''], APIGroups = [''''],
                  Resources = [''pods'', ''services''], ResourceNames = []\<rparr>
     = [\<lparr>Verbs = [''get''], APIGroups = [''''], Resources = [''pods''], ResourceNames = []\<rparr>,
        \<lparr>Verbs = [''list''], APIGroups = [''''], Resources = [''pods''], ResourceNames = []\<rparr>,
        \<lparr>Verbs = [''get''], APIGroups = [''''], Resources = [''services''], ResourceNames = []\<rparr>,
        \<lparr>Verbs = [''list''], APIGroups = [''''], Resources = [''services''], ResourceNames = []\<rparr>]
   \<and> map (\<lambda>sr. (APIGroups sr, Resources sr, Verbs sr)) (BreakdownRule rule)
     = map (\<lambda>(g, r, v). ([g], [r], [v]))
         (List.product (APIGroups rule) (List.product (Resources rule) (Verbs rule)))"
proof
  show "BreakdownRule \<lparr>Verbs = [''get'', ''list''], APIGroups = [''''],
                  Resources = [''pods'', ''services''], ResourceNames = []\<rparr>
     = [\<lparr>Verbs = [''get''], APIGroups = [''''], Resources = [''pods''], ResourceNames = []\<rparr>,
        \<lparr>Verbs = [''list''], APIGroups = [''''], Resources = [''pods''], ResourceNames = []\<rparr>,
        \<lparr>Verbs = [''get''], APIGroups = [''''], Resources = [''services''], ResourceNames = []\<rparr>,
        \<lparr>Verbs = [''list''], APIGroups = [''''], Resources = [''services''], ResourceNames = []\<rparr>]"
    by (simp add: BreakdownRule_def)
  show "map (\<lambda>sr. (APIGroups sr, Resources sr, Verbs sr)) (BreakdownRule rule)
     = map (\<lambda>(g, r, v). ([g], [r], [v]))
         (List.product (APIGroups rule) (List.product (Resources rule) (Verbs rule)))"
    by (simp add: BreakdownRule_def product_concat_map map_concat comp_def)
qed

end
